theory Spec2Isabelle
  imports Main "HOL-Library.AList"
begin

section \<open>The server client of postmark.js\<close>

text \<open>
  \<^verbatim>\<open>src/client/ServerClient.ts\<close> declares the class \<^verbatim>\<open>ServerClient\<close>, a subclass of
  \<^verbatim>\<open>BaseClient\<close>. Each of its seventeen methods fixes an HTTP verb, a path and one
  argument, and returns what the inherited \<^verbatim>\<open>processRequestWithBody\<close> or
  \<^verbatim>\<open>processRequestWithoutBody\<close> returns. The methods are embedded below one by one,
  over a heap of JavaScript objects, so that object identity, allocation and
  mutation are visible. The three list methods, which read the properties of
  the caller's filter, are embedded twice: first for a filter with data
  properties only, then for a filter of any shape, whose getters are code of
  the caller that may throw.
\<close>

subsection \<open>Values, objects and the heap\<close>

text \<open>
  A JavaScript value is a primitive or a reference to an object on the heap.
  The number in a property is an integer, as the paging parameters are; the
  client copies such values and never converts them.
\<close>

datatype jsval =
    Undefined
  | Null
  | Boolean bool
  | Number int
  | Str string
  | Ref nat

text \<open>
  An object is the list of its own enumerable properties, in the order in which
  they were created (JavaScript enumerates integer-like keys first; nothing
  proved below depends on the order); a well-formed object has no key twice.
  The heap is the list of all objects allocated so far, and an address is an
  index into it.
\<close>

type_synonym jsobject = "(string \<times> jsval) list"

type_synonym heap = "jsobject list"

definition alloc :: "heap \<Rightarrow> jsobject \<Rightarrow> nat \<times> heap" where
  "alloc h obj = (length h, h @ [obj])"

text \<open>
  The spread \<^verbatim>\<open>{...a, ...b}\<close> creates a new object and copies into it the properties
  of \<^verbatim>\<open>a\<close>, then those of \<^verbatim>\<open>b\<close>, each in its own order. Copying a property whose key
  the target already has replaces the value and keeps the key's position.
\<close>

definition CopyDataProperties :: "jsobject \<Rightarrow> jsobject \<Rightarrow> jsobject" where
  "CopyDataProperties target source = fold (\<lambda>(k, v). AList.update k v) source target"

definition spread2 :: "jsobject \<Rightarrow> jsobject \<Rightarrow> jsobject" where
  "spread2 a b = CopyDataProperties (CopyDataProperties [] a) b"

subsection \<open>Template literals\<close>

text \<open>
  \<^verbatim>\<open>`/bounces/${id}`\<close> converts \<^verbatim>\<open>id\<close>, a \<^verbatim>\<open>number\<close>, with \<^verbatim>\<open>ToString\<close>; a string is
  interpolated as it is. A number is taken the way ECMAScript's
  \<^verbatim>\<open>Number::toString\<close> takes it: it is not a number, or it has a sign and a
  magnitude that is zero, infinite or finite; for a finite one the conversion
  starts from the integers \<open>s\<close>, \<open>k\<close> and \<open>n\<close> with \<open>k\<close> the number of decimal digits of
  \<open>s\<close>, as small as possible, and \<open>s \<times> 10\<^sup>n\<^sup>-\<^sup>k\<close> the magnitude. \<open>Finite s n\<close> is that
  magnitude: 12345 is \<open>Finite 12345 5\<close>, 1.5 is \<open>Finite 15 1\<close> and 1e21 is
  \<open>Finite 1 22\<close>.
\<close>

datatype magnitude = Zero | Finite nat int | Infinity

datatype number = NaN | Positive magnitude | Negative magnitude

text \<open>\<open>digit\<close> is only ever applied to a number below ten.\<close>

definition digit :: "nat \<Rightarrow> char" where
  "digit d = ''0123456789'' ! d"

function digits :: "nat \<Rightarrow> string" where
  "digits n = (if n < 10 then [digit n] else digits (n div 10) @ [digit (n mod 10)])"
  by pat_completeness auto
termination
  by (relation "measure (\<lambda>n. n)") auto

declare digits.simps [simp del]

definition exponent_part :: "int \<Rightarrow> string" where
  "exponent_part e =
     (if e < 0 then CHR ''-'' # digits (nat (- e)) else CHR ''+'' # digits (nat e))"

text \<open>
  The steps of \<^verbatim>\<open>Number::toString\<close> for a magnitude: the digits of \<open>s\<close> followed by
  zeros when \<open>k \<le> n \<le> 21\<close>; with a decimal point inside when \<open>0 < n \<le> 21\<close>; after
  \<^verbatim>\<open>0.\<close> and zeros when \<open>-6 < n \<le> 0\<close>; and in exponent form otherwise.
\<close>

fun magnitude_toString :: "magnitude \<Rightarrow> string" where
  "magnitude_toString Zero = ''0''"
| "magnitude_toString Infinity = ''Infinity''"
| "magnitude_toString (Finite s n) =
     (let ds = digits s; k = int (length ds)
      in if k \<le> n \<and> n \<le> 21 then ds @ replicate (nat (n - k)) CHR ''0''
         else if 0 < n \<and> n \<le> 21 then take (nat n) ds @ ''.'' @ drop (nat n) ds
         else if - 6 < n \<and> n \<le> 0 then ''0.'' @ replicate (nat (- n)) CHR ''0'' @ ds
         else if k = 1 then ds @ ''e'' @ exponent_part (n - 1)
         else take 1 ds @ ''.'' @ drop 1 ds @ ''e'' @ exponent_part (n - 1))"

text \<open>Not a number first, then the zeros of either sign, then the sign.\<close>

fun Number_toString :: "number \<Rightarrow> string" where
  "Number_toString NaN = ''NaN''"
| "Number_toString (Positive m) = magnitude_toString m"
| "Number_toString (Negative Zero) = ''0''"
| "Number_toString (Negative m) = CHR ''-'' # magnitude_toString m"

subsection \<open>The inherited request methods\<close>

text \<open>
  Modelled from the spec: the enumeration \<^verbatim>\<open>HttpMethod\<close> is imported from
  \<^verbatim>\<open>./models/index\<close>, which is not among the sources. These are the members the
  client uses, the verbs of the spec's interface table.
\<close>

datatype HttpMethod = GET | POST | PUT

text \<open>
  A callback is a function of the caller; the client only passes it on, so it
  is modelled by its identity.
\<close>

datatype callback = Callback nat

text \<open>
  What one call of an inherited request method is handed: the verb, the path,
  the body or the query parameters, and the optional callback.
\<close>

datatype dispatch =
    WithBody HttpMethod string jsval "callback option"
  | WithoutBody HttpMethod string jsval "callback option"

primrec dispatch_verb :: "dispatch \<Rightarrow> HttpMethod" where
  "dispatch_verb (WithBody m p b cb) = m"
| "dispatch_verb (WithoutBody m p q cb) = m"

primrec dispatch_path :: "dispatch \<Rightarrow> string" where
  "dispatch_path (WithBody m p b cb) = p"
| "dispatch_path (WithoutBody m p q cb) = p"


text \<open>
  The state a method runs in: the heap, the log of the calls of the inherited
  request methods made so far, and the world of the dispatcher (the network,
  the callbacks it has run), of which the client knows nothing.
\<close>

record 'w runtime =
  heap :: heap
  calls :: "dispatch list"
  world :: 'w

text \<open>
  \<^verbatim>\<open>BaseClient\<close> is not among the sources, so the behaviour of its two request
  methods is a parameter \<open>this\<close> of every method below: a function that, handed a
  call, reads the heap, changes its own world and returns the deferred result
  of type \<open>'p\<close>. The two methods log the call and delegate to \<open>this\<close>.
\<close>

type_synonym ('w, 'p) dispatcher = "dispatch \<Rightarrow> heap \<Rightarrow> 'w \<Rightarrow> 'p \<times> 'w"

definition processRequest ::
  "('w, 'p) dispatcher \<Rightarrow> dispatch \<Rightarrow> 'w runtime \<Rightarrow> 'p \<times> 'w runtime" where
  "processRequest this x s =
     (let (p, w) = this x (heap s) (world s)
      in (p, s\<lparr>calls := calls s @ [x], world := w\<rparr>))"

definition processRequestWithBody ::
  "('w, 'p) dispatcher \<Rightarrow> HttpMethod \<Rightarrow> string \<Rightarrow> jsval \<Rightarrow> callback option
     \<Rightarrow> 'w runtime \<Rightarrow> 'p \<times> 'w runtime" where
  "processRequestWithBody this method path body callback =
     processRequest this (WithBody method path body callback)"

definition processRequestWithoutBody ::
  "('w, 'p) dispatcher \<Rightarrow> HttpMethod \<Rightarrow> string \<Rightarrow> jsval \<Rightarrow> callback option
     \<Rightarrow> 'w runtime \<Rightarrow> 'p \<times> 'w runtime" where
  "processRequestWithoutBody this method path queryParameters callback =
     processRequest this (WithoutBody method path queryParameters callback)"

text \<open>The object literal \<^verbatim>\<open>{}\<close> in argument position allocates an empty object.\<close>

definition empty_object :: "'w runtime \<Rightarrow> jsval \<times> 'w runtime" where
  "empty_object s = (let (a, h) = alloc (heap s) [] in (Ref a, s\<lparr>heap := h\<rparr>))"

definition properties :: "heap \<Rightarrow> nat \<Rightarrow> jsobject" where
  "properties h a = (if a < length h then h ! a else [])"

text \<open>
  The parameter \<^verbatim>\<open>filter: QueryStringParameters = {}\<close> of the three list methods: by
  its type the argument is an object, given by its address, or it is omitted
  (\<open>None\<close>), and then the default \<^verbatim>\<open>{}\<close> is allocated.
\<close>

definition default_parameter :: "nat option \<Rightarrow> 'w runtime \<Rightarrow> nat \<times> 'w runtime" where
  "default_parameter filter0 s =
     (case filter0 of
        None \<Rightarrow> (let (a, h) = alloc (heap s) [] in (a, s\<lparr>heap := h\<rparr>))
      | Some a \<Rightarrow> (a, s))"

text \<open>
  The expression \<^verbatim>\<open>{...{count: 100, offset: 0}, ...filter}\<close>: it allocates the inner
  literal, then the new object, into which the properties of the literal and
  then those of \<^verbatim>\<open>filter\<close> are copied, and its value is the reference to the new
  object. An address beyond the heap, which no reference of a running program
  is, reads as an object without properties.
\<close>

definition spread_defaults :: "nat \<Rightarrow> 'w runtime \<Rightarrow> jsval \<times> 'w runtime" where
  "spread_defaults f s =
     (let (d, h1) = alloc (heap s) [(''count'', Number 100), (''offset'', Number 0)];
          (r, h2) = alloc h1 (spread2 (properties h1 d) (properties h1 f))
      in (Ref r, s\<lparr>heap := h2\<rparr>))"

subsection \<open>The methods of ServerClient\<close>

definition sendEmail ::
  "('w, 'p) dispatcher \<Rightarrow> jsval \<Rightarrow> callback option \<Rightarrow> 'w runtime \<Rightarrow> 'p \<times> 'w runtime" where
  "sendEmail this message callback s =
     processRequestWithBody this POST ''/email'' message callback s"

definition sendEmailBatch ::
  "('w, 'p) dispatcher \<Rightarrow> jsval \<Rightarrow> callback option \<Rightarrow> 'w runtime \<Rightarrow> 'p \<times> 'w runtime" where
  "sendEmailBatch this messages callback s =
     processRequestWithBody this POST ''/email/batch'' messages callback s"

definition getDeliveryStatistics ::
  "('w, 'p) dispatcher \<Rightarrow> callback option \<Rightarrow> 'w runtime \<Rightarrow> 'p \<times> 'w runtime" where
  "getDeliveryStatistics this callback s =
     (let (q, s1) = empty_object s
      in processRequestWithoutBody this GET ''/deliverystats'' q callback s1)"

definition getBounces ::
  "('w, 'p) dispatcher \<Rightarrow> nat option \<Rightarrow> callback option \<Rightarrow> 'w runtime \<Rightarrow> 'p \<times> 'w runtime" where
  "getBounces this filter0 callback s =
     (let (filter1, s1) = default_parameter filter0 s;
          (filter2, s2) = spread_defaults filter1 s1
      in processRequestWithoutBody this GET ''/bounces'' filter2 callback s2)"

definition getBounce ::
  "('w, 'p) dispatcher \<Rightarrow> number \<Rightarrow> callback option \<Rightarrow> 'w runtime \<Rightarrow> 'p \<times> 'w runtime" where
  "getBounce this id' callback s =
     (let (q, s1) = empty_object s
      in processRequestWithoutBody this GET (''/bounces/'' @ Number_toString id') q callback s1)"

definition getBounceDump ::
  "('w, 'p) dispatcher \<Rightarrow> number \<Rightarrow> callback option \<Rightarrow> 'w runtime \<Rightarrow> 'p \<times> 'w runtime" where
  "getBounceDump this id' callback s =
     (let (q, s1) = empty_object s
      in processRequestWithoutBody this GET
           (''/bounces/'' @ Number_toString id' @ ''/dump'') q callback s1)"

definition activateBounce ::
  "('w, 'p) dispatcher \<Rightarrow> number \<Rightarrow> callback option \<Rightarrow> 'w runtime \<Rightarrow> 'p \<times> 'w runtime" where
  "activateBounce this id' callback s =
     (let (b, s1) = empty_object s
      in processRequestWithBody this PUT
           (''/bounces/'' @ Number_toString id' @ ''/activate'') b callback s1)"

definition getBounceTags ::
  "('w, 'p) dispatcher \<Rightarrow> callback option \<Rightarrow> 'w runtime \<Rightarrow> 'p \<times> 'w runtime" where
  "getBounceTags this callback s =
     (let (q, s1) = empty_object s
      in processRequestWithoutBody this GET ''/bounces/tags'' q callback s1)"

definition getServer ::
  "('w, 'p) dispatcher \<Rightarrow> callback option \<Rightarrow> 'w runtime \<Rightarrow> 'p \<times> 'w runtime" where
  "getServer this callback s =
     (let (q, s1) = empty_object s
      in processRequestWithoutBody this GET ''/server'' q callback s1)"

definition editServer ::
  "('w, 'p) dispatcher \<Rightarrow> jsval \<Rightarrow> callback option \<Rightarrow> 'w runtime \<Rightarrow> 'p \<times> 'w runtime" where
  "editServer this options callback s =
     processRequestWithBody this PUT ''/server'' options callback s"

definition getOutboundMessages ::
  "('w, 'p) dispatcher \<Rightarrow> nat option \<Rightarrow> callback option \<Rightarrow> 'w runtime \<Rightarrow> 'p \<times> 'w runtime" where
  "getOutboundMessages this filter0 callback s =
     (let (filter1, s1) = default_parameter filter0 s;
          (filter2, s2) = spread_defaults filter1 s1
      in processRequestWithoutBody this GET ''/messages/outbound'' filter2 callback s2)"

definition getOutboundMessageDetails ::
  "('w, 'p) dispatcher \<Rightarrow> string \<Rightarrow> callback option \<Rightarrow> 'w runtime \<Rightarrow> 'p \<times> 'w runtime" where
  "getOutboundMessageDetails this messageId callback s =
     (let (q, s1) = empty_object s
      in processRequestWithoutBody this GET (''/messages/outbound/'' @ messageId) q callback s1)"

definition getOutboundMessageDump ::
  "('w, 'p) dispatcher \<Rightarrow> string \<Rightarrow> callback option \<Rightarrow> 'w runtime \<Rightarrow> 'p \<times> 'w runtime" where
  "getOutboundMessageDump this messageId callback s =
     (let (q, s1) = empty_object s
      in processRequestWithoutBody this GET
           (''/messages/outbound/'' @ messageId @ ''/dump'') q callback s1)"

definition getInboundMessages ::
  "('w, 'p) dispatcher \<Rightarrow> nat option \<Rightarrow> callback option \<Rightarrow> 'w runtime \<Rightarrow> 'p \<times> 'w runtime" where
  "getInboundMessages this filter0 callback s =
     (let (filter1, s1) = default_parameter filter0 s;
          (filter2, s2) = spread_defaults filter1 s1
      in processRequestWithoutBody this GET ''/messages/inbound'' filter2 callback s2)"

definition getInboundMessageDetails ::
  "('w, 'p) dispatcher \<Rightarrow> string \<Rightarrow> callback option \<Rightarrow> 'w runtime \<Rightarrow> 'p \<times> 'w runtime" where
  "getInboundMessageDetails this messageId callback s =
     (let (q, s1) = empty_object s
      in processRequestWithoutBody this GET
           (''/messages/inbound/'' @ messageId @ ''/details'') q callback s1)"

definition bypassBlockedInboundMessage ::
  "('w, 'p) dispatcher \<Rightarrow> string \<Rightarrow> callback option \<Rightarrow> 'w runtime \<Rightarrow> 'p \<times> 'w runtime" where
  "bypassBlockedInboundMessage this messageId callback s =
     (let (q, s1) = empty_object s
      in processRequestWithoutBody this PUT
           (''/messages/inbound/'' @ messageId @ ''/bypass'') q callback s1)"

definition retryInboundHookForMessage ::
  "('w, 'p) dispatcher \<Rightarrow> string \<Rightarrow> callback option \<Rightarrow> 'w runtime \<Rightarrow> 'p \<times> 'w runtime" where
  "retryInboundHookForMessage this messageId callback s =
     (let (q, s1) = empty_object s
      in processRequestWithoutBody this PUT
           (''/messages/inbound/'' @ messageId @ ''/retry'') q callback s1)"

text \<open>
  One invocation of the client: the method and its arguments, the callback
  apart. \<open>invoke\<close> runs it.
\<close>

datatype facade_call =
    SendEmail jsval
  | SendEmailBatch jsval
  | GetDeliveryStatistics
  | GetBounces "nat option"
  | GetBounce number
  | GetBounceDump number
  | ActivateBounce number
  | GetBounceTags
  | GetServer
  | EditServer jsval
  | GetOutboundMessages "nat option"
  | GetOutboundMessageDetails string
  | GetOutboundMessageDump string
  | GetInboundMessages "nat option"
  | GetInboundMessageDetails string
  | BypassBlockedInboundMessage string
  | RetryInboundHookForMessage string

primrec invoke ::
  "('w, 'p) dispatcher \<Rightarrow> facade_call \<Rightarrow> callback option \<Rightarrow> 'w runtime \<Rightarrow> 'p \<times> 'w runtime" where
  "invoke this (SendEmail message) = sendEmail this message"
| "invoke this (SendEmailBatch messages) = sendEmailBatch this messages"
| "invoke this GetDeliveryStatistics = getDeliveryStatistics this"
| "invoke this (GetBounces filter0) = getBounces this filter0"
| "invoke this (GetBounce id') = getBounce this id'"
| "invoke this (GetBounceDump id') = getBounceDump this id'"
| "invoke this (ActivateBounce id') = activateBounce this id'"
| "invoke this GetBounceTags = getBounceTags this"
| "invoke this GetServer = getServer this"
| "invoke this (EditServer options) = editServer this options"
| "invoke this (GetOutboundMessages filter0) = getOutboundMessages this filter0"
| "invoke this (GetOutboundMessageDetails messageId) = getOutboundMessageDetails this messageId"
| "invoke this (GetOutboundMessageDump messageId) = getOutboundMessageDump this messageId"
| "invoke this (GetInboundMessages filter0) = getInboundMessages this filter0"
| "invoke this (GetInboundMessageDetails messageId) = getInboundMessageDetails this messageId"
| "invoke this (BypassBlockedInboundMessage messageId) = bypassBlockedInboundMessage this messageId"
| "invoke this (RetryInboundHookForMessage messageId) = retryInboundHookForMessage this messageId"

text \<open>
  A dispatcher for concrete runs: it resolves at once with the call it was
  handed and keeps no world.
\<close>

definition echo :: "(unit, dispatch) dispatcher" where
  "echo x h w = (x, w)"

definition start :: "heap \<Rightarrow> unit runtime" where
  "start h = \<lparr>heap = h, calls = [], world = ()\<rparr>"

text \<open>A sequence of invocations on one client, each with its callback.\<close>

fun run ::
  "('w, 'p) dispatcher \<Rightarrow> (facade_call \<times> callback option) list \<Rightarrow> 'w runtime \<Rightarrow> 'w runtime" where
  "run this [] s = s"
| "run this ((c, cb) # cs) s = run this cs (snd (invoke this c cb s))"

subsection \<open>Filters with accessor properties\<close>

text \<open>
  The type of \<^verbatim>\<open>filter\<close> admits any object, also one with accessor properties.
  The spread reads each own enumerable property of the filter with \<^verbatim>\<open>Get\<close>, and for
  an accessor that runs the getter, which is code of the caller: run on the
  heap, it returns a value or throws one, and leaves a heap. The definitions
  above embed the list methods for a filter whose properties are all data
  properties; the definitions here embed the same lines of the same methods for
  any filter. The heap keeps the values of the data properties of the filter;
  its shape lists its own enumerable keys in the order of enumeration, each
  with its getter if it is an accessor.
\<close>

type_synonym getter = "heap \<Rightarrow> (jsval + jsval) \<times> heap"

type_synonym shape = "(string \<times> getter option) list"

text \<open>
  Copying the properties of the object at \<open>a\<close> into a target, key by key: the
  value of a data property is read from the heap as it is by then (a key that
  is gone is passed over), a getter is run, and the first getter that throws
  ends the copying with what it threw (\<open>Inl\<close>).
\<close>

fun CopyDataProperties_Get ::
  "nat \<Rightarrow> shape \<Rightarrow> jsobject \<Rightarrow> heap \<Rightarrow> (jsval + jsobject) \<times> heap" where
  "CopyDataProperties_Get a [] target h = (Inr target, h)"
| "CopyDataProperties_Get a ((k, None) # ks) target h =
     (case map_of (properties h a) k of
        None \<Rightarrow> CopyDataProperties_Get a ks target h
      | Some v \<Rightarrow> CopyDataProperties_Get a ks (AList.update k v target) h)"
| "CopyDataProperties_Get a ((k, Some g) # ks) target h =
     (case g h of
        (Inl exn, h') \<Rightarrow> (Inl exn, h')
      | (Inr v, h') \<Rightarrow> CopyDataProperties_Get a ks (AList.update k v target) h')"

text \<open>
  The expression \<^verbatim>\<open>{...{count: 100, offset: 0}, ...filter}\<close> for such a filter: its
  value is the reference to the new object, or the evaluation ends with what a
  getter threw.
\<close>

definition spread_defaults_acc ::
  "nat \<Rightarrow> shape \<Rightarrow> 'w runtime \<Rightarrow> (jsval + jsval) \<times> 'w runtime" where
  "spread_defaults_acc f sh s =
     (let (d, h1) = alloc (heap s) [(''count'', Number 100), (''offset'', Number 0)];
          (copied, h2) = CopyDataProperties_Get f sh (CopyDataProperties [] (properties h1 d)) h1
      in case copied of
           Inl exn \<Rightarrow> (Inl exn, s\<lparr>heap := h2\<rparr>)
         | Inr obj \<Rightarrow> (let (r, h3) = alloc h2 obj in (Inr (Ref r), s\<lparr>heap := h3\<rparr>)))"

text \<open>
  The three list methods, called with a filter: the method raises what the
  spread raised (\<open>Inl\<close>), or it returns what the request method returns (\<open>Inr\<close>).
\<close>

definition getBounces_acc ::
  "('w, 'p) dispatcher \<Rightarrow> nat \<Rightarrow> shape \<Rightarrow> callback option \<Rightarrow> 'w runtime
     \<Rightarrow> (jsval + 'p) \<times> 'w runtime" where
  "getBounces_acc this filter0 sh callback s =
     (case spread_defaults_acc filter0 sh s of
        (Inl exn, s1) \<Rightarrow> (Inl exn, s1)
      | (Inr filter2, s2) \<Rightarrow>
          (let (p, s3) = processRequestWithoutBody this GET ''/bounces'' filter2 callback s2
           in (Inr p, s3)))"

definition getOutboundMessages_acc ::
  "('w, 'p) dispatcher \<Rightarrow> nat \<Rightarrow> shape \<Rightarrow> callback option \<Rightarrow> 'w runtime
     \<Rightarrow> (jsval + 'p) \<times> 'w runtime" where
  "getOutboundMessages_acc this filter0 sh callback s =
     (case spread_defaults_acc filter0 sh s of
        (Inl exn, s1) \<Rightarrow> (Inl exn, s1)
      | (Inr filter2, s2) \<Rightarrow>
          (let (p, s3) =
                 processRequestWithoutBody this GET ''/messages/outbound'' filter2 callback s2
           in (Inr p, s3)))"

definition getInboundMessages_acc ::
  "('w, 'p) dispatcher \<Rightarrow> nat \<Rightarrow> shape \<Rightarrow> callback option \<Rightarrow> 'w runtime
     \<Rightarrow> (jsval + 'p) \<times> 'w runtime" where
  "getInboundMessages_acc this filter0 sh callback s =
     (case spread_defaults_acc filter0 sh s of
        (Inl exn, s1) \<Rightarrow> (Inl exn, s1)
      | (Inr filter2, s2) \<Rightarrow>
          (let (p, s3) =
                 processRequestWithoutBody this GET ''/messages/inbound'' filter2 callback s2
           in (Inr p, s3)))"


definition invoke_acc ::
  "('w, 'p) dispatcher \<Rightarrow> facade_call \<Rightarrow> shape \<Rightarrow> callback option \<Rightarrow> 'w runtime
     \<Rightarrow> (jsval + 'p) \<times> 'w runtime" where
  "invoke_acc this c sh callback s =
     (case c of
        GetBounces (Some a) \<Rightarrow> getBounces_acc this a sh callback s
      | GetOutboundMessages (Some a) \<Rightarrow> getOutboundMessages_acc this a sh callback s
      | GetInboundMessages (Some a) \<Rightarrow> getInboundMessages_acc this a sh callback s
      | _ \<Rightarrow> (let (p, s1) = invoke this c callback s in (Inr p, s1)))"



text \<open>The shape of an object whose properties are all data properties.\<close>

definition plain_shape :: "jsobject \<Rightarrow> shape" where
  "plain_shape obj = map (\<lambda>(k, v). (k, None)) obj"

subsection \<open>The spec's interface table\<close>

text \<open>
  The rows of the table of external interfaces in the spec, one per operation:
  the verb and the path, with \<^verbatim>\<open>{id}\<close> replaced by the text of the identifier.
\<close>

primrec interface_table :: "facade_call \<Rightarrow> HttpMethod \<times> string" where
  "interface_table (SendEmail message) = (POST, ''/email'')"
| "interface_table (SendEmailBatch messages) = (POST, ''/email/batch'')"
| "interface_table GetDeliveryStatistics = (GET, ''/deliverystats'')"
| "interface_table (GetBounces filter0) = (GET, ''/bounces'')"
| "interface_table (GetBounce id') = (GET, ''/bounces/'' @ Number_toString id')"
| "interface_table (GetBounceDump id') = (GET, ''/bounces/'' @ Number_toString id' @ ''/dump'')"
| "interface_table (ActivateBounce id') =
     (PUT, ''/bounces/'' @ Number_toString id' @ ''/activate'')"
| "interface_table GetBounceTags = (GET, ''/bounces/tags'')"
| "interface_table GetServer = (GET, ''/server'')"
| "interface_table (EditServer options) = (PUT, ''/server'')"
| "interface_table (GetOutboundMessages filter0) = (GET, ''/messages/outbound'')"
| "interface_table (GetOutboundMessageDetails messageId) =
     (GET, ''/messages/outbound/'' @ messageId)"
| "interface_table (GetOutboundMessageDump messageId) =
     (GET, ''/messages/outbound/'' @ messageId @ ''/dump'')"
| "interface_table (GetInboundMessages filter0) = (GET, ''/messages/inbound'')"
| "interface_table (GetInboundMessageDetails messageId) =
     (GET, ''/messages/inbound/'' @ messageId @ ''/details'')"
| "interface_table (BypassBlockedInboundMessage messageId) =
     (PUT, ''/messages/inbound/'' @ messageId @ ''/bypass'')"
| "interface_table (RetryInboundHookForMessage messageId) =
     (PUT, ''/messages/inbound/'' @ messageId @ ''/retry'')"

text \<open>The three list methods, each with the path of its row.\<close>

definition list_methods :: "((nat option \<Rightarrow> facade_call) \<times> string) list" where
  "list_methods =
     [(GetBounces, ''/bounces''),
      (GetOutboundMessages, ''/messages/outbound''),
      (GetInboundMessages, ''/messages/inbound'')]"

subsection \<open>URL escaping, as the spec uses the word\<close>

text \<open>
  The spec speaks of an identifier that appears url-escaped in the path. Escaping
  a string for a URL keeps the unreserved characters of RFC 3986 (letters,
  digits, hyphen, period, underscore and tilde) and writes every other
  character as a percent sign and two hexadecimal digits. No function of the
  sources does this; the definition is here to compare the paths of the client
  with.
\<close>

definition unreserved :: "char \<Rightarrow> bool" where
  "unreserved c \<longleftrightarrow>
     c \<in> set (''ABCDEFGHIJKLMNOPQRSTUVWXYZabcdefghijklmnopqrstuvwxyz'' @ ''0123456789-._~'')"

definition hex_digit :: "nat \<Rightarrow> char" where
  "hex_digit d = ''0123456789ABCDEF'' ! d"

definition percent_encode :: "char \<Rightarrow> string" where
  "percent_encode c =
     (if unreserved c then [c]
      else [CHR ''%'', hex_digit (of_char c div 16), hex_digit (of_char c mod 16)])"

definition url_escape :: "string \<Rightarrow> string" where
  "url_escape s = concat (map percent_encode s)"

subsection \<open>The dispatcher of the spec\<close>

text \<open>
  Modelled from the spec: the class \<^verbatim>\<open>BaseClient\<close> is not among the sources. The
  spec describes it as the request dispatcher; of its state it says that the
  credentials are an opaque token attached as a fixed header on every request,
  and that the configuration is set once at construction and read-only
  thereafter.
\<close>

record client =
  token :: string
  authHeader :: string
  clientOptions :: "jsval option"

text \<open>
  Modelled from the spec: the constructor of \<^verbatim>\<open>BaseClient\<close>, missing from the
  sources, keeps the token, the name of the authentication header and the
  options.
\<close>

definition BaseClient :: "string \<Rightarrow> string \<Rightarrow> jsval option \<Rightarrow> client" where
  "BaseClient token' authHeader' configOptions =
     \<lparr>token = token', authHeader = authHeader', clientOptions = configOptions\<rparr>"

text \<open>
  The constructor of \<^verbatim>\<open>ServerClient\<close>, from the sources, calls the one of the base
  class with the server token and \<^verbatim>\<open>DefaultHeaderNames.SERVER_TOKEN\<close>. The value of
  that constant is declared outside the sources and is the first parameter here.
\<close>

definition ServerClient :: "string \<Rightarrow> string \<Rightarrow> jsval option \<Rightarrow> client" where
  "ServerClient SERVER_TOKEN serverToken options = BaseClient serverToken SERVER_TOKEN options"

text \<open>
  Modelled from the spec: the request descriptor (verb, path, query or body
  parameters) with the authentication header, as the dispatcher sends it.
\<close>

datatype content = QueryParameters jsobject | RequestBody jsval

record http_request =
  req_verb :: HttpMethod
  req_path :: string
  req_headers :: "(string \<times> string) list"
  req_content :: content

text \<open>
  Modelled from the spec: what comes back from the remote service, a transport
  failure or a reply with its status, its parsed body and, for an error reply,
  the remote error code and message; and the errors the dispatcher rejects
  with, a transport failure as it is or the structured error (status code,
  remote error code, message).
\<close>

datatype reply = TransportFailure string | Reply nat jsval int string

datatype error = TransportError string | ApiError nat int string

text \<open>
  Modelled from the spec: the world of the dispatcher, which is what the remote
  service answers to each request, the requests sent so far and the callback
  invocations made so far (the callback, its error argument with \<open>None\<close> for
  \<^verbatim>\<open>null\<close>, its result argument).
\<close>

record net =
  remote :: "http_request \<Rightarrow> reply"
  exchanges :: "http_request list"
  callback_log :: "(callback \<times> error option \<times> jsval) list"

text \<open>
  Modelled from the spec: the dispatcher resolves with the parsed response on a
  2xx status and rejects with a structured error otherwise.
\<close>

definition settle :: "reply \<Rightarrow> error + jsval" where
  "settle r =
     (case r of
        TransportFailure m \<Rightarrow> Inl (TransportError m)
      | Reply status parsed code msg \<Rightarrow>
          if 200 \<le> status \<and> status < 300 then Inr parsed else Inl (ApiError status code msg))"

text \<open>Modelled from the spec: one HTTP exchange, the request sent and the outcome.\<close>

definition exchange :: "http_request \<Rightarrow> net \<Rightarrow> (error + jsval) \<times> net" where
  "exchange req w = (settle (remote w req), w\<lparr>exchanges := exchanges w @ [req]\<rparr>)"

text \<open>
  Modelled from the spec: \<^verbatim>\<open>performRequestWithBody(verb, path, bodyPayload)\<close> of the
  dispatcher contract, which attaches the configured authentication header and
  sends the payload as the body.
\<close>

definition performRequestWithBody ::
  "client \<Rightarrow> HttpMethod \<Rightarrow> string \<Rightarrow> jsval \<Rightarrow> net \<Rightarrow> (error + jsval) \<times> net" where
  "performRequestWithBody c method path body =
     exchange \<lparr>req_verb = method, req_path = path,
               req_headers = [(authHeader c, token c)], req_content = RequestBody body\<rparr>"

text \<open>
  Modelled from the spec: \<^verbatim>\<open>performRequestWithoutBody(verb, path, queryParameters)\<close>
  of the dispatcher contract, which attaches the configured authentication
  header and sends the properties of the object as query parameters.
\<close>

definition performRequestWithoutBody ::
  "client \<Rightarrow> HttpMethod \<Rightarrow> string \<Rightarrow> jsobject \<Rightarrow> net \<Rightarrow> (error + jsval) \<times> net" where
  "performRequestWithoutBody c method path queryParameters =
     exchange \<lparr>req_verb = method, req_path = path,
               req_headers = [(authHeader c, token c)],
               req_content = QueryParameters queryParameters\<rparr>"

text \<open>
  Modelled from the spec: a supplied callback is invoked with \<^verbatim>\<open>(null, result)\<close> or
  \<^verbatim>\<open>(error, undefined)\<close>, consistent with the deferred outcome.
\<close>

definition callback_arguments :: "error + jsval \<Rightarrow> error option \<times> jsval" where
  "callback_arguments outcome =
     (case outcome of Inr result \<Rightarrow> (None, result) | Inl e \<Rightarrow> (Some e, Undefined))"

text \<open>
  Modelled from the spec: the optional callback is invoked in addition to
  settling the returned deferred value, and only if supplied.
\<close>

definition complete :: "callback option \<Rightarrow> (error + jsval) \<times> net \<Rightarrow> (error + jsval) \<times> net" where
  "complete callback r =
     (case callback of
        None \<Rightarrow> r
      | Some f \<Rightarrow>
          (fst r, (snd r)\<lparr>callback_log :=
                            callback_log (snd r) @ [(f, callback_arguments (fst r))]\<rparr>))"

text \<open>
  Modelled from the spec: the query parameters to serialise are the properties
  of the object referred to.
\<close>

definition object_of :: "heap \<Rightarrow> jsval \<Rightarrow> jsobject" where
  "object_of h v = (case v of Ref a \<Rightarrow> properties h a | _ \<Rightarrow> [])"

text \<open>
  Modelled from the spec: the two inherited request methods of \<^verbatim>\<open>BaseClient\<close>,
  missing from the sources, as the dispatcher of a client \<open>c\<close>: each performs
  the request of its channel and completes the callback.
\<close>

definition spec_dispatcher :: "client \<Rightarrow> (net, error + jsval) dispatcher" where
  "spec_dispatcher c x h w =
     (case x of
        WithBody method path body callback \<Rightarrow>
          complete callback (performRequestWithBody c method path body w)
      | WithoutBody method path queryParameters callback \<Rightarrow>
          complete callback (performRequestWithoutBody c method path (object_of h queryParameters) w))"

section \<open>Properties\<close>

subsection \<open>Unfolding the methods\<close>

lemmas facade_defs =
  sendEmail_def sendEmailBatch_def getDeliveryStatistics_def getBounces_def getBounce_def
  getBounceDump_def activateBounce_def getBounceTags_def getServer_def editServer_def
  getOutboundMessages_def getOutboundMessageDetails_def getOutboundMessageDump_def
  getInboundMessages_def getInboundMessageDetails_def bypassBlockedInboundMessage_def
  retryInboundHookForMessage_def processRequestWithBody_def processRequestWithoutBody_def

lemmas literal_defs = empty_object_def default_parameter_def spread_defaults_def alloc_def

lemma processRequest_calls:
  "calls (snd (processRequest this x s)) = calls s @ [x]"
  by (simp add: processRequest_def split: prod.split)

lemma processRequest_heap:
  "heap (snd (processRequest this x s)) = heap s"
  by (simp add: processRequest_def split: prod.split)

lemma processRequest_result:
  "(fst (processRequest this x s), world (snd (processRequest this x s)))
     = this x (heap s) (world s)"
  by (simp add: processRequest_def split: prod.split)

lemma empty_object_eq:
  "empty_object s = (Ref (length (heap s)), s\<lparr>heap := heap s @ [[]]\<rparr>)"
  by (simp add: empty_object_def alloc_def)

text \<open>
  Every method is one call of \<open>processRequest\<close>, made after the objects of its
  literals are allocated: the call logged last, on the heap the method leaves.
\<close>

lemma invoke_shape:
  "invoke this c cb s =
     processRequest this (last (calls (snd (invoke this c cb s))))
       (s\<lparr>heap := heap (snd (invoke this c cb s))\<rparr>)"
  by (cases c)
    (simp_all add: facade_defs literal_defs processRequest_calls processRequest_heap
      split: prod.split option.split)

lemma invoke_calls:
  "calls (snd (invoke this c cb s)) = calls s @ [last (calls (snd (invoke this c cb s)))]"
  by (cases c)
    (simp_all add: facade_defs literal_defs processRequest_calls split: prod.split option.split)


lemma invoke_outcome:
  "(fst (invoke this c cb s), world (snd (invoke this c cb s)))
     = this (last (calls (snd (invoke this c cb s)))) (heap (snd (invoke this c cb s))) (world s)"
  using processRequest_result
    [of this "last (calls (snd (invoke this c cb s)))" "s\<lparr>heap := heap (snd (invoke this c cb s))\<rparr>"]
  by (simp add: invoke_shape [symmetric])

lemma invoke_world:
  "world (snd (invoke this c cb s))
     = snd (this (last (calls (snd (invoke this c cb s))))
              (heap (snd (invoke this c cb s))) (world s))"
  by (metis invoke_outcome snd_conv)


lemma run_calls_length:
  "length (calls (run this cs s)) = length (calls s) + length cs"
proof (induction cs arbitrary: s)
  case Nil
  show ?case by simp
next
  case (Cons p cs)
  obtain c cb where p: "p = (c, cb)" by (cases p)
  have "length (calls (snd (invoke this c cb s))) = Suc (length (calls s))"
    using invoke_calls [of this c cb s] by (metis length_append_singleton)
  with Cons.IH [of "snd (invoke this c cb s)"] show ?case
    by (simp add: p)
qed

subsection \<open>The spread of the defaults and the filter\<close>

text \<open>
  Copying the properties of a source into a target gives the target's
  properties overridden by the source's; within the source the later binding of
  a key would win, and a well-formed object binds no key twice.
\<close>

lemma CopyDataProperties_map_of:
  "map_of (CopyDataProperties target source) = map_of target ++ map_of (rev source)"
  unfolding CopyDataProperties_def
proof (induction source arbitrary: target)
  case Nil
  show ?case by simp
next
  case (Cons p ps)
  obtain k v where p: "p = (k, v)" by (cases p)
  have "map_of (fold (\<lambda>(k, v). AList.update k v) ps (AList.update k v target))
        = map_of (AList.update k v target) ++ map_of (rev ps)"
    by (rule Cons.IH)
  then show ?case
    by (simp add: p update_conv' map_add_upd_left)
qed

lemma map_of_rev_distinct:
  "distinct (map fst ps) \<Longrightarrow> map_of (rev ps) = map_of ps"
proof (induction ps)
  case Nil
  show ?case by simp
next
  case (Cons p ps)
  obtain k v where p: "p = (k, v)" by (cases p)
  from Cons.prems have fresh: "k \<notin> fst ` set ps" and d: "distinct (map fst ps)"
    by (simp_all add: p)
  have "map_of ps k = None"
    using fresh by (simp add: map_of_eq_None_iff)
  then have "[k \<mapsto> v] ++ map_of ps = (map_of ps)(k \<mapsto> v)"
    by (auto simp: map_add_def fun_eq_iff split: option.split)
  with Cons.IH [OF d] show ?case
    by (simp add: p)
qed

lemma spread2_defaults_map_of:
  "distinct (map fst b) \<Longrightarrow>
   map_of (spread2 [(''count'', Number 100), (''offset'', Number 0)] b)
     = map_of [(''count'', Number 100), (''offset'', Number 0)] ++ map_of b"
proof -
  assume d: "distinct (map fst b)"
  have "map_of (rev [(''count'', Number 100), (''offset'', Number 0)])
          = map_of [(''count'', Number 100), (''offset'', Number 0)]"
    by (rule map_of_rev_distinct) simp
  then show ?thesis
    by (simp only: spread2_def CopyDataProperties_map_of map_of_rev_distinct [OF d])
      simp
qed

lemma spread2_defaults_empty:
  "spread2 [(''count'', Number 100), (''offset'', Number 0)] []
     = [(''count'', Number 100), (''offset'', Number 0)]"
  by (simp add: spread2_def CopyDataProperties_def)

lemma spread2_defaults_count:
  "spread2 [(''count'', Number 100), (''offset'', Number 0)] [(''count'', v)]
     = [(''count'', v), (''offset'', Number 0)]"
  by (simp add: spread2_def CopyDataProperties_def)

lemma list_methods_cases:
  assumes "(m, path) \<in> set list_methods"
  obtains "m = GetBounces" "path = ''/bounces''"
  | "m = GetOutboundMessages" "path = ''/messages/outbound''"
  | "m = GetInboundMessages" "path = ''/messages/inbound''"
  using assms by (auto simp: list_methods_def)

lemma list_method_None:
  assumes "(m, path) \<in> set list_methods"
  shows "invoke this (m None) cb s =
           processRequest this (WithoutBody GET path (Ref (length (heap s) + 2)) cb)
             (s\<lparr>heap := heap s @ [[], [(''count'', Number 100), (''offset'', Number 0)],
                                   [(''count'', Number 100), (''offset'', Number 0)]]\<rparr>)"
  using assms
  by (rule list_methods_cases)
    (simp_all add: facade_defs literal_defs properties_def nth_append spread2_defaults_empty)

lemma list_method_Some:
  assumes "(m, path) \<in> set list_methods" and "a < length (heap s)"
  shows "invoke this (m (Some a)) cb s =
           processRequest this (WithoutBody GET path (Ref (length (heap s) + 1)) cb)
             (s\<lparr>heap := heap s @ [[(''count'', Number 100), (''offset'', Number 0)],
                                   spread2 [(''count'', Number 100), (''offset'', Number 0)]
                                     (heap s ! a)]\<rparr>)"
  using assms
  by (elim list_methods_cases)
    (simp_all add: facade_defs literal_defs properties_def nth_append)

subsection \<open>Percent-encoding leaves exactly the unreserved text alone\<close>

lemma url_escape_unreserved:
  "\<forall>ch\<in>set s. unreserved ch \<Longrightarrow> url_escape s = s"
  by (induction s) (simp_all add: url_escape_def percent_encode_def)

lemma length_url_escape:
  "length (url_escape s) = length s + 2 * length (filter (\<lambda>ch. \<not> unreserved ch) s)"
  by (induction s) (simp_all add: url_escape_def percent_encode_def)

lemma url_escape_fixed_iff:
  "url_escape s = s \<longleftrightarrow> (\<forall>ch\<in>set s. unreserved ch)"
proof
  assume "url_escape s = s"
  then have "length (url_escape s) = length s"
    by simp
  then have "filter (\<lambda>ch. \<not> unreserved ch) s = []"
    by (simp add: length_url_escape)
  then show "\<forall>ch\<in>set s. unreserved ch"
    by (simp add: filter_empty_conv)
next
  assume "\<forall>ch\<in>set s. unreserved ch"
  then show "url_escape s = s"
    by (rule url_escape_unreserved)
qed

subsection \<open>The dispatcher of the spec, one call at a time\<close>

lemma spec_dispatcher_headers:
  "map req_headers (exchanges (snd (spec_dispatcher c x h w)))
     = map req_headers (exchanges w) @ [[(authHeader c, token c)]]"
  by (cases x)
    (simp_all add: spec_dispatcher_def complete_def performRequestWithBody_def
      performRequestWithoutBody_def exchange_def split: option.split)


lemma run_headers:
  "map req_headers (exchanges (world (run (spec_dispatcher c) cs s)))
     = map req_headers (exchanges (world s)) @ replicate (length cs) [(authHeader c, token c)]"
proof (induction cs arbitrary: s)
  case Nil
  show ?case by simp
next
  case (Cons p cs)
  obtain call cb where p: "p = (call, cb)" by (cases p)
  let ?s1 = "snd (invoke (spec_dispatcher c) call cb s)"
  have "map req_headers (exchanges (world ?s1))
          = map req_headers (exchanges (world s)) @ [[(authHeader c, token c)]]"
    by (simp add: invoke_world [of "spec_dispatcher c"] spec_dispatcher_headers)
  with Cons.IH [of ?s1] show ?case
    by (simp add: p replicate_append_same)
qed


subsection \<open>Filters with accessor properties\<close>

lemmas acc_defs = getBounces_acc_def getOutboundMessages_acc_def getInboundMessages_acc_def








text \<open>
  What the method itself does to the heap is to allocate: when the getters of
  the filter leave the heap as it is, every object that existed before is
  unchanged after the spread.
\<close>

lemma CopyDataProperties_Get_heap:
  "\<forall>(k, og)\<in>set sh. \<forall>g. og = Some g \<longrightarrow> (\<forall>h0. snd (g h0) = h0) \<Longrightarrow>
   snd (CopyDataProperties_Get a sh target h) = h"
proof (induction a sh target h rule: CopyDataProperties_Get.induct)
  case (1 a target h)
  show ?case by simp
next
  case (2 a k ks target h)
  then show ?case
    by (cases "map_of (properties h a) k") auto
next
  case (3 a k g ks target h)
  from "3.prems" have g: "snd (g h) = h"
    by simp
  obtain res where gh: "g h = (res, h)"
    using g by (cases "g h") simp
  show ?case
  proof (cases res)
    case (Inl e)
    with gh show ?thesis by simp
  next
    case (Inr v)
    from "3.prems" have
      "\<forall>(k, og)\<in>set ks. \<forall>g. og = Some g \<longrightarrow> (\<forall>h0. snd (g h0) = h0)"
      by simp
    from "3.IH" [OF gh [symmetric] Inr this] gh Inr show ?thesis
      by simp
  qed
qed

lemma spread_defaults_acc_heap:
  assumes "\<forall>(k, og)\<in>set sh. \<forall>g. og = Some g \<longrightarrow> (\<forall>h0. snd (g h0) = h0)"
  shows "take (length (heap s)) (heap (snd (spread_defaults_acc f sh s))) = heap s"
proof -
  let ?h1 = "heap s @ [[(''count'', Number 100), (''offset'', Number 0)]]"
  let ?t = "CopyDataProperties [] (properties ?h1 (length (heap s)))"
  have "snd (CopyDataProperties_Get f sh ?t ?h1) = ?h1"
    using assms by (rule CopyDataProperties_Get_heap)
  then show ?thesis
    by (cases "CopyDataProperties_Get f sh ?t ?h1")
      (simp add: spread_defaults_acc_def alloc_def split: sum.split)
qed

text \<open>
  For a filter whose properties are all data properties the methods are the
  ones of the first embedding.
\<close>

lemma CopyDataProperties_Get_plain:
  assumes "distinct (map fst (properties h a))" and "set ps \<subseteq> set (properties h a)"
  shows "CopyDataProperties_Get a (plain_shape ps) target h
           = (Inr (CopyDataProperties target ps), h)"
  using assms(2)
proof (induction ps arbitrary: target)
  case Nil
  show ?case
    by (simp add: plain_shape_def CopyDataProperties_def)
next
  case (Cons q ps)
  obtain k v where q: "q = (k, v)" by (cases q)
  from Cons.prems have "(k, v) \<in> set (properties h a)" and sub: "set ps \<subseteq> set (properties h a)"
    by (simp_all add: q)
  with assms(1) have "map_of (properties h a) k = Some v"
    by (simp add: map_of_is_SomeI)
  moreover have "CopyDataProperties_Get a (plain_shape ps) (AList.update k v target) h
      = (Inr (CopyDataProperties (AList.update k v target) ps), h)"
    using sub by (rule Cons.IH)
  ultimately show ?case
    by (simp add: q plain_shape_def CopyDataProperties_def)
qed

lemma invoke_acc_plain:
  assumes "(m, path) \<in> set list_methods" and "a < length (heap s)"
    and "distinct (map fst (heap s ! a))"
  shows "invoke_acc this (m (Some a)) (plain_shape (heap s ! a)) cb s
           = (Inr (fst (invoke this (m (Some a)) cb s)), snd (invoke this (m (Some a)) cb s))"
proof -
  let ?lit = "[(''count'', Number 100), (''offset'', Number 0)]"
  let ?h1 = "heap s @ [?lit]"
  have pr: "properties ?h1 a = heap s ! a"
    using assms(2) by (simp add: properties_def nth_append)
  have "CopyDataProperties_Get a (plain_shape (heap s ! a)) (CopyDataProperties [] ?lit) ?h1
          = (Inr (CopyDataProperties (CopyDataProperties [] ?lit) (heap s ! a)), ?h1)"
    using assms(3) by (intro CopyDataProperties_Get_plain) (simp_all add: pr)
  moreover have "a < Suc (length (heap s))"
    using assms(2) by simp
  ultimately have sp: "spread_defaults_acc a (plain_shape (heap s ! a)) s
      = (Inr (fst (spread_defaults a s)), snd (spread_defaults a s))"
    by (simp add: spread_defaults_acc_def spread_defaults_def alloc_def properties_def
        nth_append spread2_def assms(2))
  from assms(1) show ?thesis
    by (rule list_methods_cases)
      (simp_all add: invoke_acc_def acc_defs facade_defs default_parameter_def sp
        split: prod.split)
qed

section \<open>The claims\<close>

text \<open>
  C1. Each list method (\<open>getBounces\<close>, \<open>getOutboundMessages\<close>, \<open>getInboundMessages\<close>)
  hands the dispatcher, as query parameters, a reference \<open>q\<close> to an object that
  is the merge of \<^verbatim>\<open>{count: 100, offset: 0}\<close> with the caller's filter, the caller's
  value winning where both have the key. Without a filter the object is exactly
  \<^verbatim>\<open>{count: 100, offset: 0}\<close>; with the filter \<^verbatim>\<open>{count: 10}\<close> it is
  \<^verbatim>\<open>{count: 10, offset: 0}\<close>. The filter is the object at the address \<open>a\<close> of the
  heap, with no key twice.
\<close>

theorem list_query_parameters:
  assumes "(m, path) \<in> set list_methods"
  shows "(\<exists>q. calls (snd (invoke this (m None) cb s)) = calls s @ [WithoutBody GET path (Ref q) cb]
            \<and> properties (heap (snd (invoke this (m None) cb s))) q
                = [(''count'', Number 100), (''offset'', Number 0)])
       \<and> (a < length (heap s) \<and> distinct (map fst (heap s ! a)) \<longrightarrow>
           (\<exists>q. calls (snd (invoke this (m (Some a)) cb s))
                  = calls s @ [WithoutBody GET path (Ref q) cb]
              \<and> map_of (properties (heap (snd (invoke this (m (Some a)) cb s))) q)
                  = map_of [(''count'', Number 100), (''offset'', Number 0)]
                    ++ map_of (heap s ! a)))
       \<and> (a < length (heap s) \<and> heap s ! a = [(''count'', Number 10)] \<longrightarrow>
           (\<exists>q. calls (snd (invoke this (m (Some a)) cb s))
                  = calls s @ [WithoutBody GET path (Ref q) cb]
              \<and> properties (heap (snd (invoke this (m (Some a)) cb s))) q
                  = [(''count'', Number 10), (''offset'', Number 0)]))"
proof (intro conjI impI)
  show "\<exists>q. calls (snd (invoke this (m None) cb s)) = calls s @ [WithoutBody GET path (Ref q) cb]
            \<and> properties (heap (snd (invoke this (m None) cb s))) q
                = [(''count'', Number 100), (''offset'', Number 0)]"
    by (rule exI [of _ "length (heap s) + 2"])
      (simp add: list_method_None [OF assms] processRequest_calls processRequest_heap
        properties_def nth_append)
next
  assume "a < length (heap s) \<and> distinct (map fst (heap s ! a))"
  then have a: "a < length (heap s)" and d: "distinct (map fst (heap s ! a))"
    by simp_all
  show "\<exists>q. calls (snd (invoke this (m (Some a)) cb s))
                  = calls s @ [WithoutBody GET path (Ref q) cb]
              \<and> map_of (properties (heap (snd (invoke this (m (Some a)) cb s))) q)
                  = map_of [(''count'', Number 100), (''offset'', Number 0)]
                    ++ map_of (heap s ! a)"
    using spread2_defaults_map_of [OF d]
    by (intro exI [of _ "length (heap s) + 1"])
      (simp add: list_method_Some [OF assms a] processRequest_calls processRequest_heap
        properties_def nth_append)
next
  assume "a < length (heap s) \<and> heap s ! a = [(''count'', Number 10)]"
  then have a: "a < length (heap s)" and f: "heap s ! a = [(''count'', Number 10)]"
    by simp_all
  show "\<exists>q. calls (snd (invoke this (m (Some a)) cb s))
                  = calls s @ [WithoutBody GET path (Ref q) cb]
              \<and> properties (heap (snd (invoke this (m (Some a)) cb s))) q
                  = [(''count'', Number 10), (''offset'', Number 0)]"
    by (rule exI [of _ "length (heap s) + 1"])
      (simp add: list_method_Some [OF assms a] processRequest_calls processRequest_heap
        properties_def nth_append f spread2_defaults_count)
qed

theorem list_query_parameters_witness:
  "(GetBounces, ''/bounces'') \<in> set list_methods
   \<and> 0 < length (heap (start [[(''count'', Number 10)]]))
   \<and> distinct (map fst (heap (start [[(''count'', Number 10)]]) ! 0))
   \<and> heap (start [[(''count'', Number 10)]]) ! 0 = [(''count'', Number 10)]
   \<and> (\<exists>q. calls (snd (invoke echo (GetBounces (Some 0)) None (start [[(''count'', Number 10)]])))
            = [WithoutBody GET ''/bounces'' (Ref q) None]
         \<and> properties (heap (snd (invoke echo (GetBounces (Some 0)) None
                                     (start [[(''count'', Number 10)]])))) q
            = [(''count'', Number 10), (''offset'', Number 0)])"
proof -
  have m: "(GetBounces, ''/bounces'') \<in> set list_methods"
    by (simp add: list_methods_def)
  show ?thesis
    using list_query_parameters [OF m, of echo None "start [[(''count'', Number 10)]]" 0] m
    by (simp add: start_def)
qed

text \<open>
  C2. Every method hands the dispatcher the verb and the path of its row of the
  spec's interface table: one invocation adds one call to the log, with that
  verb and that path. \<open>sendEmail\<close> POSTs to \<^verbatim>\<open>/email\<close> with the message as the body,
  \<open>activateBounce\<close> PUTs to \<^verbatim>\<open>/bounces/{id}/activate\<close> and \<open>getInboundMessageDetails\<close>
  GETs \<^verbatim>\<open>/messages/inbound/{id}/details\<close>.
\<close>

theorem verb_and_path_of_interface_table:
  "map (\<lambda>x. (dispatch_verb x, dispatch_path x)) (calls (snd (invoke this c cb s)))
     = map (\<lambda>x. (dispatch_verb x, dispatch_path x)) (calls s) @ [interface_table c]
   \<and> calls (snd (sendEmail this message cb s)) = calls s @ [WithBody POST ''/email'' message cb]
   \<and> map (\<lambda>x. (dispatch_verb x, dispatch_path x)) (calls (snd (activateBounce this i cb s)))
     = map (\<lambda>x. (dispatch_verb x, dispatch_path x)) (calls s)
       @ [(PUT, ''/bounces/'' @ Number_toString i @ ''/activate'')]
   \<and> map (\<lambda>x. (dispatch_verb x, dispatch_path x))
       (calls (snd (getInboundMessageDetails this messageId cb s)))
     = map (\<lambda>x. (dispatch_verb x, dispatch_path x)) (calls s)
       @ [(GET, ''/messages/inbound/'' @ messageId @ ''/details'')]"
proof (intro conjI)
  show "map (\<lambda>x. (dispatch_verb x, dispatch_path x)) (calls (snd (invoke this c cb s)))
     = map (\<lambda>x. (dispatch_verb x, dispatch_path x)) (calls s) @ [interface_table c]"
    by (cases c)
      (simp_all add: facade_defs literal_defs processRequest_calls
        split: prod.split option.split)
qed (simp_all add: facade_defs empty_object_eq processRequest_calls)

text \<open>
  C3, as amended. In each of the eight methods with an identifier in the path,
  the text of the identifier (\<^verbatim>\<open>ToString\<close> of a numeric id, the message id as it
  is) stands verbatim between the fixed parts of the path, for every
  identifier, with no encoding and no validation: \<open>getBounce(12345)\<close> issues GET
  \<^verbatim>\<open>/bounces/12345\<close>, and \<open>getBounce(1e21)\<close> issues GET \<^verbatim>\<open>/bounces/1e+21\<close>. That text is
  its own url-escaped form exactly when all its characters are unreserved.
\<close>

theorem identifier_embedded_verbatim:
  "map dispatch_path (calls (snd (getBounce this i cb s)))
     = map dispatch_path (calls s) @ [''/bounces/'' @ Number_toString i]
   \<and> map dispatch_path (calls (snd (getBounceDump this i cb s)))
     = map dispatch_path (calls s) @ [''/bounces/'' @ Number_toString i @ ''/dump'']
   \<and> map dispatch_path (calls (snd (activateBounce this i cb s)))
     = map dispatch_path (calls s) @ [''/bounces/'' @ Number_toString i @ ''/activate'']
   \<and> map dispatch_path (calls (snd (getOutboundMessageDetails this messageId cb s)))
     = map dispatch_path (calls s) @ [''/messages/outbound/'' @ messageId]
   \<and> map dispatch_path (calls (snd (getOutboundMessageDump this messageId cb s)))
     = map dispatch_path (calls s) @ [''/messages/outbound/'' @ messageId @ ''/dump'']
   \<and> map dispatch_path (calls (snd (getInboundMessageDetails this messageId cb s)))
     = map dispatch_path (calls s) @ [''/messages/inbound/'' @ messageId @ ''/details'']
   \<and> map dispatch_path (calls (snd (bypassBlockedInboundMessage this messageId cb s)))
     = map dispatch_path (calls s) @ [''/messages/inbound/'' @ messageId @ ''/bypass'']
   \<and> map dispatch_path (calls (snd (retryInboundHookForMessage this messageId cb s)))
     = map dispatch_path (calls s) @ [''/messages/inbound/'' @ messageId @ ''/retry'']
   \<and> calls (snd (getBounce this (Positive (Finite 12345 5)) cb s))
     = calls s @ [WithoutBody GET ''/bounces/12345'' (Ref (length (heap s))) cb]
   \<and> calls (snd (getBounce this (Positive (Finite 1 22)) cb s))
     = calls s @ [WithoutBody GET ''/bounces/1e+21'' (Ref (length (heap s))) cb]
   \<and> (url_escape (Number_toString i) = Number_toString i
        \<longleftrightarrow> (\<forall>ch\<in>set (Number_toString i). unreserved ch))
   \<and> (url_escape messageId = messageId \<longleftrightarrow> (\<forall>ch\<in>set messageId. unreserved ch))"
proof (intro conjI)
  show "calls (snd (getBounce this (Positive (Finite 12345 5)) cb s))
     = calls s @ [WithoutBody GET ''/bounces/12345'' (Ref (length (heap s))) cb]"
    by (simp add: facade_defs empty_object_eq processRequest_calls digits.simps digit_def)
  show "calls (snd (getBounce this (Positive (Finite 1 22)) cb s))
     = calls s @ [WithoutBody GET ''/bounces/1e+21'' (Ref (length (heap s))) cb]"
    by (simp add: facade_defs empty_object_eq processRequest_calls digits.simps digit_def
        exponent_part_def)
  show "url_escape (Number_toString i) = Number_toString i
        \<longleftrightarrow> (\<forall>ch\<in>set (Number_toString i). unreserved ch)"
    by (rule url_escape_fixed_iff)
  show "url_escape messageId = messageId \<longleftrightarrow> (\<forall>ch\<in>set messageId. unreserved ch)"
    by (rule url_escape_fixed_iff)
qed (simp_all add: facade_defs empty_object_eq processRequest_calls)

theorem identifier_embedded_verbatim_witness:
  "list_all unreserved ''8f3a-77_b.c~D''
   \<and> url_escape ''8f3a-77_b.c~D'' = ''8f3a-77_b.c~D''
   \<and> map dispatch_path (calls (snd (getInboundMessageDetails echo ''8f3a-77_b.c~D'' None (start []))))
     = [''/messages/inbound/8f3a-77_b.c~D/details'']"
  using identifier_embedded_verbatim [of echo NaN None "start []" "''8f3a-77_b.c~D''"]
  by (simp add: start_def unreserved_def)

text \<open>
  C3 as stated fails: the message id \<^verbatim>\<open>a b\<close> appears verbatim in the path of
  \<open>getOutboundMessageDetails\<close>, and that path is not the one with the url-escaped
  identifier, \<^verbatim>\<open>a%20b\<close>.
\<close>

theorem identifier_not_escaped_counterexample:
  "calls (snd (getOutboundMessageDetails echo ''a b'' None (start [])))
     = [WithoutBody GET ''/messages/outbound/a b'' (Ref 0) None]
   \<and> ''/messages/outbound/a b'' \<noteq> ''/messages/outbound/'' @ url_escape ''a b''"
  by (simp add: facade_defs empty_object_eq processRequest_calls start_def
      url_escape_def percent_encode_def unreserved_def hex_digit_def)








text \<open>
  C7. With the dispatcher of the spec, every request sent by any sequence of
  invocations on a client constructed with a server token carries exactly the
  authentication header of the construction: the server token under the
  server-token header name.
\<close>

theorem authentication_header_on_every_request:
  "map req_headers
       (exchanges (world (run (spec_dispatcher (ServerClient SERVER_TOKEN serverToken options)) cs s)))
     = map req_headers (exchanges (world s)) @ replicate (length cs) [(SERVER_TOKEN, serverToken)]"
  by (simp add: run_headers ServerClient_def BaseClient_def)

text \<open>
  C8. The three methods that carry a payload hand it to the dispatcher as the
  body, as the caller supplied it, whatever value it is; they allocate nothing
  and change no object, so what the payload refers to is what the caller built.
\<close>

theorem payload_forwarded_unchanged:
  "calls (snd (sendEmail this payload cb s)) = calls s @ [WithBody POST ''/email'' payload cb]
   \<and> heap (snd (sendEmail this payload cb s)) = heap s
   \<and> calls (snd (sendEmailBatch this payload cb s))
       = calls s @ [WithBody POST ''/email/batch'' payload cb]
   \<and> heap (snd (sendEmailBatch this payload cb s)) = heap s
   \<and> calls (snd (editServer this payload cb s)) = calls s @ [WithBody PUT ''/server'' payload cb]
   \<and> heap (snd (editServer this payload cb s)) = heap s"
  by (simp add: sendEmail_def sendEmailBatch_def editServer_def processRequestWithBody_def
      processRequest_calls processRequest_heap)



text \<open>
  C10. Of the three PUT methods without a payload, \<open>activateBounce\<close> calls the
  request method with a body and hands it a fresh empty object as the body;
  \<open>bypassBlockedInboundMessage\<close> and \<open>retryInboundHookForMessage\<close> call the request
  method without a body and hand it a fresh empty object as the query
  parameters. With the dispatcher of the spec, the request of \<open>activateBounce\<close>
  has that empty object as its body, and the requests of the other two have the
  properties of theirs, none, as query parameters.
\<close>

theorem empty_object_channels:
  "calls (snd (activateBounce this i cb s))
     = calls s @ [WithBody PUT (''/bounces/'' @ Number_toString i @ ''/activate'')
                    (Ref (length (heap s))) cb]
   \<and> heap (snd (activateBounce this i cb s)) = heap s @ [[]]
   \<and> calls (snd (bypassBlockedInboundMessage this messageId cb s))
     = calls s @ [WithoutBody PUT (''/messages/inbound/'' @ messageId @ ''/bypass'')
                    (Ref (length (heap s))) cb]
   \<and> heap (snd (bypassBlockedInboundMessage this messageId cb s)) = heap s @ [[]]
   \<and> calls (snd (retryInboundHookForMessage this messageId cb s))
     = calls s @ [WithoutBody PUT (''/messages/inbound/'' @ messageId @ ''/retry'')
                    (Ref (length (heap s))) cb]
   \<and> heap (snd (retryInboundHookForMessage this messageId cb s)) = heap s @ [[]]
   \<and> exchanges (world (snd (activateBounce (spec_dispatcher cl) i cb n)))
     = exchanges (world n)
       @ [\<lparr>req_verb = PUT, req_path = ''/bounces/'' @ Number_toString i @ ''/activate'',
           req_headers = [(authHeader cl, token cl)],
           req_content = RequestBody (Ref (length (heap n)))\<rparr>]
   \<and> exchanges (world (snd (bypassBlockedInboundMessage (spec_dispatcher cl) messageId cb n)))
     = exchanges (world n)
       @ [\<lparr>req_verb = PUT, req_path = ''/messages/inbound/'' @ messageId @ ''/bypass'',
           req_headers = [(authHeader cl, token cl)],
           req_content = QueryParameters []\<rparr>]
   \<and> exchanges (world (snd (retryInboundHookForMessage (spec_dispatcher cl) messageId cb n)))
     = exchanges (world n)
       @ [\<lparr>req_verb = PUT, req_path = ''/messages/inbound/'' @ messageId @ ''/retry'',
           req_headers = [(authHeader cl, token cl)],
           req_content = QueryParameters []\<rparr>]"
proof (intro conjI)
  show "exchanges (world (snd (activateBounce (spec_dispatcher cl) i cb n)))
     = exchanges (world n)
       @ [\<lparr>req_verb = PUT, req_path = ''/bounces/'' @ Number_toString i @ ''/activate'',
           req_headers = [(authHeader cl, token cl)],
           req_content = RequestBody (Ref (length (heap n)))\<rparr>]"
    by (simp add: facade_defs empty_object_eq processRequest_def spec_dispatcher_def
        complete_def performRequestWithBody_def exchange_def split: option.split)
  show "exchanges (world (snd (bypassBlockedInboundMessage (spec_dispatcher cl) messageId cb n)))
     = exchanges (world n)
       @ [\<lparr>req_verb = PUT, req_path = ''/messages/inbound/'' @ messageId @ ''/bypass'',
           req_headers = [(authHeader cl, token cl)],
           req_content = QueryParameters []\<rparr>]"
    by (simp add: facade_defs empty_object_eq processRequest_def spec_dispatcher_def
        complete_def performRequestWithoutBody_def exchange_def object_of_def properties_def
        split: option.split)
  show "exchanges (world (snd (retryInboundHookForMessage (spec_dispatcher cl) messageId cb n)))
     = exchanges (world n)
       @ [\<lparr>req_verb = PUT, req_path = ''/messages/inbound/'' @ messageId @ ''/retry'',
           req_headers = [(authHeader cl, token cl)],
           req_content = QueryParameters []\<rparr>]"
    by (simp add: facade_defs empty_object_eq processRequest_def spec_dispatcher_def
        complete_def performRequestWithoutBody_def exchange_def object_of_def properties_def
        split: option.split)
qed (simp_all add: facade_defs empty_object_eq processRequest_calls processRequest_heap)

end
